theory Spec2Isabelle
  imports Complex_Main "HOL-Library.Word"
begin

section \<open>Python string operations used by the server\<close>

text \<open>
  Python strings are modelled as \<open>string\<close>. The model covers ASCII text: characters
  from 128 on are treated as neither whitespace nor letters.
\<close>

abbreviation nl :: char where
  "nl \<equiv> CHR 0x0A"

definition isspace :: "char \<Rightarrow> bool" where
  \<comment> \<open>the ASCII characters for which \<open>str.isspace\<close> holds: tab, newline, vertical tab,
      form feed, carriage return, the separators 0x1C to 0x1F, and space\<close>
  "isspace c = (let n = (of_char c :: nat) in (9 \<le> n \<and> n \<le> 13) \<or> (28 \<le> n \<and> n \<le> 32))"

definition lstrip :: "string \<Rightarrow> string" where
  "lstrip s = dropWhile isspace s"

definition rstrip :: "string \<Rightarrow> string" where
  "rstrip s = rev (dropWhile isspace (rev s))"

definition strip :: "string \<Rightarrow> string" where
  \<comment> \<open>\<open>str.strip()\<close> without argument\<close>
  "strip s = rstrip (lstrip s)"

definition upper_char :: "char \<Rightarrow> char" where
  "upper_char c = (let n = (of_char c :: nat) in if 97 \<le> n \<and> n \<le> 122 then char_of (n - 32) else c)"

definition lower_char :: "char \<Rightarrow> char" where
  "lower_char c = (let n = (of_char c :: nat) in if 65 \<le> n \<and> n \<le> 90 then char_of (n + 32) else c)"

definition upper :: "string \<Rightarrow> string" where
  "upper s = map upper_char s"

definition lower :: "string \<Rightarrow> string" where
  "lower s = map lower_char s"

definition startswith :: "string \<Rightarrow> string \<Rightarrow> bool" where
  "startswith s p = (take (length p) s = p)"

text \<open>\<open>s.split(sep)\<close> for a one-character separator: every separator ends a piece, and the
  empty string gives one empty piece.\<close>

fun split_on :: "char \<Rightarrow> string \<Rightarrow> string list" where
  "split_on sep [] = [[]]"
| "split_on sep (c # cs) =
     (if c = sep then [] # split_on sep cs
      else (case split_on sep cs of
              [] \<Rightarrow> [[c]]
            | l # ls \<Rightarrow> (c # l) # ls))"

text \<open>\<open>s.split(sep, 1)\<close>: at most one split, at the first separator.\<close>

definition split1 :: "char \<Rightarrow> string \<Rightarrow> string list" where
  "split1 sep s =
     (if sep \<in> set s then [takeWhile (\<lambda>c. c \<noteq> sep) s, tl (dropWhile (\<lambda>c. c \<noteq> sep) s)]
      else [s])"

text \<open>An exception, as far as the server looks at it: \<open>talk\<close> reports \<open>str(e)\<close>.
  \<open>Raised m\<close> is an exception of a collaborator (the LLM client, the speech service,
  \<open>json.loads\<close>) whose \<open>str\<close> is \<open>m\<close>.\<close>

datatype exn = IndexError | FileNotFoundError string | Raised string

text \<open>\<open>xs[1]\<close>, which raises \<open>IndexError\<close> on a list shorter than two.\<close>

definition index1 :: "'a list \<Rightarrow> exn + 'a" where
  "index1 xs = (if 1 < length xs then Inr (xs ! 1) else Inl IndexError)"

text \<open>\<open>sep.join(xs)\<close>\<close>

fun join :: "string \<Rightarrow> string list \<Rightarrow> string" where
  "join sep [] = []"
| "join sep [x] = x"
| "join sep (x # y # ys) = x @ sep @ join sep (y # ys)"

section \<open>The directive parser\<close>

text \<open>The loop of \<open>parse_response\<close> over the lines, carrying \<open>motion\<close>, \<open>face\<close> and
  \<open>clean_lines\<close>.\<close>

fun parse_loop :: "string list \<Rightarrow> string \<times> string \<times> string list \<Rightarrow> exn + (string \<times> string \<times> string list)" where
  "parse_loop [] acc = Inr acc"
| "parse_loop (line # rest) (motion, face, clean_lines) =
     (let upper_line = upper (strip line) in
      if startswith upper_line ''MOTION:'' then
        (case index1 (split1 CHR '':'' line) of
           Inl e \<Rightarrow> Inl e
         | Inr v \<Rightarrow> parse_loop rest (lower (strip v), face, clean_lines))
      else if startswith upper_line ''FACE:'' then
        (case index1 (split1 CHR '':'' line) of
           Inl e \<Rightarrow> Inl e
         | Inr v \<Rightarrow> parse_loop rest (motion, lower (strip v), clean_lines))
      else parse_loop rest (motion, face, clean_lines @ [line]))"

definition parse_response :: "string \<Rightarrow> exn + (string \<times> string \<times> string)" where
  "parse_response raw_text =
     (case parse_loop (split_on nl (strip raw_text)) (''initial position'', ''talking'', []) of
        Inl e \<Rightarrow> Inl e
      | Inr (motion, face, clean_lines) \<Rightarrow> Inr (strip (join '' '' clean_lines), motion, face))"

subsection \<open>The parser as the specification words it\<close>








section \<open>Conversation state and the dialogue engine\<close>

text \<open>The module constant \<open>SYSTEM_PROMPT\<close>, line by line.\<close>

definition SYSTEM_PROMPT :: string where
  \<open>SYSTEM_PROMPT = join [nl]
    ['''',
     ''You are Aarav, a friendly and intelligent demo robot living in a research lab.'',
     '''',
     ''About yourself:'',
     ''- Your name is Aarav.'',
     ''- You live in a lab and interact with researchers, visitors, and students.'',
     ''- You are curious, helpful, warm, and slightly playful.'',
     ''- You speak naturally and conversationally, not like a machine.'',
     ''- You keep responses concise (2-4 sentences max) since you are speaking out loud.'',
     ''- IMPORTANT: Keep the audio ONLY 5-7 seconds maximum! Be brief and concise - choose your words wisely! '',
     '''',
     ''Physical capabilities - choose appropriate motion and face for EVERY response.'',
     '''',
     ''Available MOTIONS (choose ONE):'',
     ''- hi                  (greetings, saying hello)'',
     ''- hand wave          (goodbyes, waving, casual greetings)'',
     ''- shake hand         (formal introductions, offers to shake)'',
     ''- hands up           (celebrations, victories, cheering)'',
     ''- hands down         (calming, lowering energy, neutral)'',
     ''- dance              (celebrations, music, fun, parties)'',
     ''- jump               (excitement, surprise, joy)'',
     ''- exercise           (fitness, health, workout topics)'',
     ''- forward            (moving forward, progress)'',
     ''- backward           (going back, reversing)'',
     ''- turn right         (turning right)'',
     ''- turn left          (turning left)'',
     ''- say yes            (agreement, affirmation, nodding)'',
     ''- say no             (disagreement, denial, shaking head)'',
     ''- say thank you      (gratitude, appreciation, thanks)'',
     ''- right bend wave    (playful right-side wave)'',
     ''- left bend wave     (playful left-side wave)'',
     ''- initial position   (neutral, rest position)'',
     '''',
     ''Available FACES (choose ONE):'',
     ''- talking   (default - speaking normally)'',
     ''- happy     (positive, joyful, excited)'',
     ''- sad       (sympathetic, disappointing, somber)'',
     ''- angry     (frustrated, upset - use sparingly)'',
     ''- crying    (very sad, emotional - rare)'',
     ''- blink     (thinking, casual, neutral)'',
     ''- initial   (neutral default face)'',
     '''',
     ''CRITICAL OUTPUT FORMAT:'',
     ''Always end your response with these TWO lines:'',
     ''MOTION: [one of the motions above]'',
     ''FACE: [one of the faces above]'',
     '''',
     ''Examples:'',
     '''',
     ''User: "Hey Aarav, introduce yourself!"'',
     ''Response:'',
     ''Hi there! I'm Aarav, your friendly lab robot. I love meeting new people and showing off what AI can do!'',
     ''MOTION: hi'',
     ''FACE: happy'',
     '''',
     ''User: "What's the weather like today?"'',
     ''Response:'',
     ''I don't have access to weather data, but I can help you look it up if you'd like!'',
     ''MOTION: initial position'',
     ''FACE: talking'',
     '''',
     ''User: "Tell me a joke"'',
     ''Response:'',
     ''Why don't robots ever get lost? Because they always follow their programming! Hope that made you smile!'',
     ''MOTION: dance'',
     ''FACE: happy'',
     '''',
     ''User: "That's sad news"'',
     ''Response:'',
     ''I'm really sor'' @ ''ry to hear that. I'm here if you need to talk about it.'',
     ''MOTION: hands down'',
     ''FACE: sad'',
     '''',
     ''User: "Thanks Aarav!"'',
     ''Response:'',
     ''You're very welcome! Happy to help anytime!'',
     ''MOTION: say thank you'',
     ''FACE: happy'',
     '''']\<close>


definition str_exn :: "exn \<Rightarrow> string" where
  \<comment> \<open>\<open>str(e)\<close>\<close>
  "str_exn e =
     (case e of
        IndexError \<Rightarrow> ''list index out of range''
      | FileNotFoundError path \<Rightarrow>
          ''[Errno 2] No such file or directory: '' @ [CHR 0x27] @ path @ [CHR 0x27]
      | Raised m \<Rightarrow> m)"

record message =
  role :: string
  content :: string

text \<open>The keyword arguments of \<open>groq_client.chat.completions.create\<close>. The temperature is
  the decimal the source writes.\<close>

record llm_request =
  model :: string
  messages :: "message list"
  max_tokens :: nat
  temperature :: rat

type_synonym bytes = "8 word list"

text \<open>What the program reads and writes: the module-level dictionary
  \<open>conversation_history\<close>, the requests it has sent to the LLM service (oldest first), and
  the files on disk.\<close>

record world =
  conversation_history :: "string \<rightharpoonup> message list"
  llm_calls :: "llm_request list"
  files :: "string \<rightharpoonup> bytes"

text \<open>\<open>get_llm_response\<close>. The LLM service is the function \<open>llm\<close>: it answers a request
  with the content of the reply, or raises.\<close>

definition get_llm_response ::
  "(llm_request \<Rightarrow> exn + string) \<Rightarrow> world \<Rightarrow> string \<Rightarrow> string \<Rightarrow> world \<times> (exn + string)" where
  "get_llm_response llm w session_id user_message =
     (let h0 = (case conversation_history w session_id of None \<Rightarrow> [] | Some h \<Rightarrow> h);
          h1 = h0 @ [\<lparr>role = ''user'', content = user_message\<rparr>];
          msgs = \<lparr>role = ''system'', content = SYSTEM_PROMPT\<rparr> # h1;
          req = \<lparr>model = ''llama-3.3-70b-versatile'', messages = msgs,
                 max_tokens = 300, temperature = 7 / 10\<rparr>;
          w1 = w\<lparr>conversation_history := (conversation_history w)(session_id \<mapsto> h1),
                 llm_calls := llm_calls w @ [req]\<rparr>
      in case llm req of
           Inl e \<Rightarrow> (w1, Inl e)
         | Inr raw_reply \<Rightarrow>
             (let h2 = h1 @ [\<lparr>role = ''assistant'', content = raw_reply\<rparr>];
                  h3 = (if length h2 > 20 then drop (length h2 - 20) h2 else h2)
              in (w1\<lparr>conversation_history := (conversation_history w1)(session_id \<mapsto> h3)\<rparr>,
                  Inr raw_reply)))"

text \<open>A sequence of invocations of the dialogue engine, each with its session id, its user
  text and the behaviour of the LLM service during that invocation.\<close>

fun invocations ::
  "world \<Rightarrow> (string \<times> string \<times> (llm_request \<Rightarrow> exn + string)) list \<Rightarrow> world" where
  "invocations w [] = w"
| "invocations w ((session_id, user_message, llm) # rest) =
     invocations (fst (get_llm_response llm w session_id user_message)) rest"

text \<open>The state in which the server starts: \<open>conversation_history = {}\<close>, nothing sent,
  no files.\<close>

definition fresh :: world where
  "fresh = \<lparr>conversation_history = Map.empty, llm_calls = [], files = Map.empty\<rparr>"

section \<open>The audio transcoder\<close>

text \<open>\<open>s.replace(old, new)\<close>\<close>

function replace :: "string \<Rightarrow> string \<Rightarrow> string \<Rightarrow> string" where
  "replace old new s =
     (if old = [] then new @ concat (map (\<lambda>c. c # new) s)
      else if s = [] then []
      else if take (length old) s = old then new @ replace old new (drop (length old) s)
      else hd s # replace old new (tl s))"
  by pat_completeness auto
termination
  by (relation "measure (\<lambda>(old, new, s). length s)") auto

declare replace.simps [simp del]

text \<open>What \<open>subprocess.run(cmd, check=True, capture_output=True)\<close> did: the tool exited
  with status 0, or the call raised (a non-zero exit status, or the tool could not be
  started). Either way the tool may have written bytes to its output path.\<close>

datatype run_result = Exit0 "bytes option" | RunRaised "bytes option"

text \<open>\<open>convert_to_esp32_wav\<close>. \<open>tmp\<close> is the name that \<open>NamedTemporaryFile\<close> chose,
  without its suffix; \<open>ffmpeg\<close> is the behaviour of the tool on the bytes of its input file.
  Creating and writing the temporary file succeeds in this model. The inner sum is the
  \<open>try\<close> block: \<open>Inl\<close> holds the files at the moment an exception was raised, and the
  \<open>except\<close> branch follows.\<close>

definition convert_to_esp32_wav ::
  "string \<Rightarrow> (bytes \<Rightarrow> run_result) \<Rightarrow> world \<Rightarrow> bytes \<Rightarrow> world \<times> (exn + bytes)" where
  "convert_to_esp32_wav tmp ffmpeg w mp3_bytes =
     (let mp3_path = tmp @ ''.mp3'';
          fs1 = (files w)(mp3_path \<mapsto> mp3_bytes);
          wav_path = replace ''.mp3'' ''.wav'' mp3_path;
          ran = ffmpeg mp3_bytes;
          written = (case ran of Exit0 out \<Rightarrow> out | RunRaised out \<Rightarrow> out);
          fs2 = (case written of None \<Rightarrow> fs1 | Some b \<Rightarrow> fs1(wav_path \<mapsto> b));
          tried =
            (case ran of
               RunRaised _ \<Rightarrow> Inl fs2
             | Exit0 _ \<Rightarrow>
                 (case fs2 wav_path of
                    None \<Rightarrow> Inl fs2
                  | Some wav_bytes \<Rightarrow>
                      (if fs2 mp3_path = None then Inl fs2
                       else let fs3 = fs2(mp3_path := None)
                            in if fs3 wav_path = None then Inl fs3
                               else Inr (fs3(wav_path := None), wav_bytes))))
      in case tried of
           Inr (fs, wav_bytes) \<Rightarrow> (w\<lparr>files := fs\<rparr>, Inr wav_bytes)
         | Inl fs \<Rightarrow>
             (if fs mp3_path = None then (w\<lparr>files := fs\<rparr>, Inl (FileNotFoundError mp3_path))
              else (w\<lparr>files := fs(mp3_path := None)\<rparr>, Inr mp3_bytes)))"

section \<open>The endpoints\<close>

text \<open>\<open>base64.b64encode(b).decode('utf-8')\<close>\<close>

definition b64_char :: "nat \<Rightarrow> char" where
  "b64_char i = ''ABCDEFGHIJKLMNOPQRSTUVWXYZabcdefghijklmnopqrstuvwxyz0123456789+/'' ! i"

fun b64encode :: "bytes \<Rightarrow> string" where
  "b64encode [] = []"
| "b64encode [a] =
     (let n = unat a
      in [b64_char (n div 4), b64_char (n mod 4 * 16), CHR ''='', CHR ''=''])"
| "b64encode [a, b] =
     (let n = unat a * 256 + unat b
      in [b64_char (n div 1024), b64_char (n div 16 mod 64), b64_char (n mod 16 * 4), CHR ''=''])"
| "b64encode (a # b # c # rest) =
     (let n = unat a * 65536 + unat b * 256 + unat c
      in [b64_char (n div 262144), b64_char (n div 4096 mod 64), b64_char (n div 64 mod 64),
          b64_char (n mod 64)] @ b64encode rest)"

text \<open>The decoded request body is a dictionary from field names to strings, as the
  interface has it: \<open>{text: string, session_id: string}\<close>. A dictionary is kept as an
  association list; \<open>not data\<close> holds for \<open>None\<close> and for the empty dictionary.\<close>

type_synonym dict = "(string \<times> string) list"

definition dict_get :: "dict \<Rightarrow> string \<Rightarrow> string \<Rightarrow> string" where
  \<comment> \<open>\<open>d.get(key, dflt)\<close>\<close>
  "dict_get d key dflt = (case map_of d key of None \<Rightarrow> dflt | Some v \<Rightarrow> v)"

text \<open>A request, by what the handlers ask of it: \<open>get_json\<close> is the value of
  \<open>request.get_json(force=True, silent=True)\<close> (\<open>None\<close> for a body that is not JSON),
  \<open>get_data\<close> the body as text, \<open>form\<close> is \<open>request.form.to_dict()\<close>.\<close>

record request =
  get_json :: "dict option"
  get_data :: string
  form :: dict

datatype json = JBool bool | JStr string

text \<open>The collaborators of one invocation of an endpoint.\<close>

record env =
  json_loads :: "string \<Rightarrow> exn + dict"
  llm :: "llm_request \<Rightarrow> exn + string"
  text_to_speech :: "string \<Rightarrow> exn + bytes"
  tmp_name :: string
  ffmpeg :: "bytes \<Rightarrow> run_result"

text \<open>The three ways in which \<open>talk\<close> looks for the request data; the result is the
  dictionary that reaches the test \<open>if not data\<close> (empty also where the source has
  \<open>None\<close>, which the third method replaces in any case).\<close>

definition request_data :: "(string \<Rightarrow> exn + dict) \<Rightarrow> request \<Rightarrow> dict" where
  "request_data loads req =
     (let data1 = get_json req;
          data2 =
            (if data1 = None \<or> data1 = Some [] then
               (if get_data req \<noteq> [] then
                  (case loads (get_data req) of Inl e \<Rightarrow> data1 | Inr d \<Rightarrow> Some d)
                else data1)
             else data1)
      in case data2 of
           None \<Rightarrow> form req
         | Some d \<Rightarrow> if d = [] then form req else d)"

definition failure :: "string \<Rightarrow> (string \<times> json) list \<times> nat" where
  \<comment> \<open>\<open>jsonify({"success": False, "error": msg}), 200\<close>\<close>
  "failure msg = ([(''success'', JBool False), (''error'', JStr msg)], 200)"

definition talk :: "env \<Rightarrow> world \<Rightarrow> request \<Rightarrow> world \<times> ((string \<times> json) list \<times> nat)" where
  "talk env w req =
     (let data = request_data (json_loads env) req
      in if data = [] then (w, failure ''Could not parse request data'')
         else
           let user_text = dict_get data ''text'' [];
               session_id = dict_get data ''session_id'' ''default''
           in if user_text = [] then (w, failure ''No text provided'')
              else
                (case get_llm_response (llm env) w session_id user_text of
                   (w1, Inl e) \<Rightarrow> (w1, failure (str_exn e))
                 | (w1, Inr raw_llm_response) \<Rightarrow>
                     (case parse_response raw_llm_response of
                        Inl e \<Rightarrow> (w1, failure (str_exn e))
                      | Inr (spoken_text, motion, face) \<Rightarrow>
                          (case text_to_speech env spoken_text of
                             Inl e \<Rightarrow> (w1, failure (str_exn e))
                           | Inr audio_mp3 \<Rightarrow>
                               (case convert_to_esp32_wav (tmp_name env) (ffmpeg env) w1 audio_mp3 of
                                  (w2, Inl e) \<Rightarrow> (w2, failure (str_exn e))
                                | (w2, Inr audio_wav) \<Rightarrow>
                                    (w2,
                                     ([(''success'', JBool True),
                                       (''audio_base64'', JStr (b64encode audio_wav)),
                                       (''transcript'', JStr user_text),
                                       (''response'', JStr spoken_text),
                                       (''motion'', JStr motion),
                                       (''face'', JStr face)], 200)))))))"

text \<open>\<open>clear_session\<close> has no handler of its own: an exception of \<open>json.loads\<close> leaves the
  function (\<open>Inl\<close>).\<close>

definition clear_session ::
  "env \<Rightarrow> world \<Rightarrow> request \<Rightarrow> world \<times> (exn + (string \<times> json) list \<times> nat)" where
  "clear_session env w req =
     (case json_loads env (get_data req) of
        Inl e \<Rightarrow> (w, Inl e)
      | Inr data \<Rightarrow>
          (let session_id = dict_get data ''session_id'' ''default'';
               w1 = (if session_id \<in> dom (conversation_history w)
                     then w\<lparr>conversation_history := (conversation_history w)(session_id := None)\<rparr>
                     else w)
           in (w1, Inr ([(''message'',
                          JStr (''Session '' @ [CHR 0x27] @ session_id @ [CHR 0x27] @ '' cleared.''))],
                        200))))"

section \<open>Scenarios\<close>

text \<open>Requests and collaborators with fixed behaviour, for the concrete cases below.\<close>

definition joke_reply :: string where
  "joke_reply = ''Why did the robot cross the road? To get to the other silicon!'' @ [nl] @
     ''MOTION: dance'' @ [nl] @ ''FACE: happy''"

definition joke_request :: request where
  \<open>joke_request =
     \<lparr>get_json = Some [(''text'', ''Tell me a joke''), (''session_id'', ''s1'')],
      get_data = ''{"text": "Tell me a joke", "session_id": "s1"}'',
      form = []\<rparr>\<close>

definition hello_request :: request where
  \<open>hello_request =
     \<lparr>get_json = Some [(''text'', ''Hello'')], get_data = ''{"text": "Hello"}'', form = []\<rparr>\<close>

definition empty_object_request :: request where
  "empty_object_request = \<lparr>get_json = Some [], get_data = ''{}'', form = []\<rparr>"

definition stub_env :: "(exn + string) \<Rightarrow> env" where
  "stub_env reply =
     \<lparr>json_loads = (\<lambda>s. if s = ''{}'' then Inr [] else Inl (Raised ''Expecting value'')),
      llm = (\<lambda>_. reply),
      text_to_speech = (\<lambda>_. Inr [0x49, 0x44, 0x33]),
      tmp_name = ''/tmp/tmpk3x9'',
      ffmpeg = (\<lambda>_. Exit0 (Some [0x50, 0x43, 0x4D]))\<rparr>"

definition no_text_request :: request where
  \<open>no_text_request =
     \<lparr>get_json = Some [(''session_id'', ''s1'')], get_data = ''{"session_id": "s1"}'', form = []\<rparr>\<close>

section \<open>Properties of the directive parser\<close>

subsection \<open>Characters, trimming and splitting\<close>

lemma isspace_nl: "isspace nl" by (simp add: isspace_def)




















lemma split_on_not_Nil: "split_on sep s \<noteq> []"
  by (induction s) (auto split: list.splits)

lemma split_on_Cons_other:
  "c \<noteq> sep \<Longrightarrow> split_on sep (c # cs) = (c # hd (split_on sep cs)) # tl (split_on sep cs)"
  using split_on_not_Nil [of sep cs] by (cases "split_on sep cs") simp_all




















subsection \<open>Labels outside the vocabulary\<close>







section \<open>Properties of the dialogue engine\<close>

lemma get_llm_response_raises:
  assumes "snd (get_llm_response svc w sid t) = Inl e"
  shows "conversation_history (fst (get_llm_response svc w sid t)) =
           (conversation_history w)(sid \<mapsto>
              (case conversation_history w sid of None \<Rightarrow> [] | Some h \<Rightarrow> h) @
              [\<lparr>role = ''user'', content = t\<rparr>])"
  using assms by (simp add: get_llm_response_def Let_def split: sum.splits)

lemma get_llm_response_returns:
  assumes "snd (get_llm_response svc w sid t) = Inr r"
  shows "conversation_history (fst (get_llm_response svc w sid t)) =
           (conversation_history w)(sid \<mapsto>
              (let h = (case conversation_history w sid of None \<Rightarrow> [] | Some h \<Rightarrow> h) @
                       [\<lparr>role = ''user'', content = t\<rparr>, \<lparr>role = ''assistant'', content = r\<rparr>]
               in drop (length h - 20) h))"
  using assms by (auto simp add: get_llm_response_def Let_def split: sum.splits)

lemma get_llm_response_other:
  "k \<noteq> sid \<Longrightarrow> conversation_history (fst (get_llm_response svc w sid t)) k = conversation_history w k"
  by (simp add: get_llm_response_def Let_def split: sum.splits)



lemma failing_invocation_step:
  "conversation_history (fst (get_llm_response (\<lambda>_. Inl e) w sid t)) sid =
     Some ((case conversation_history w sid of None \<Rightarrow> [] | Some h \<Rightarrow> h) @ [\<lparr>role = ''user'', content = t\<rparr>])"
  by (simp add: get_llm_response_def Let_def)

lemma failing_invocations:
  "conversation_history (invocations w (replicate (Suc n) (sid, t, \<lambda>_. Inl e))) sid =
     Some ((case conversation_history w sid of None \<Rightarrow> [] | Some h \<Rightarrow> h) @
           replicate (Suc n) \<lparr>role = ''user'', content = t\<rparr>)"
proof (induction n arbitrary: w)
  case 0
  show ?case by (simp add: failing_invocation_step)
next
  case (Suc n)
  have "conversation_history (invocations w (replicate (Suc (Suc n)) (sid, t, \<lambda>_. Inl e))) sid =
        conversation_history (invocations (fst (get_llm_response (\<lambda>_. Inl e) w sid t)) (replicate (Suc n) (sid, t, \<lambda>_. Inl e))) sid"
    by simp
  also have "\<dots> = Some (((case conversation_history w sid of None \<Rightarrow> [] | Some h \<Rightarrow> h) @ [\<lparr>role = ''user'', content = t\<rparr>]) @
           replicate (Suc n) \<lparr>role = ''user'', content = t\<rparr>)"
    by (simp only: Suc.IH failing_invocation_step option.case)
  finally show ?case by (simp add: replicate_app_Cons_same)
qed

lemma transcript_bounded_after_reply:
  assumes "snd (get_llm_response svc w sid t) = Inr r"
  shows "\<exists>h. conversation_history (fst (get_llm_response svc w sid t)) sid = Some h \<and> length h \<le> 20"
  using get_llm_response_returns [OF assms] by (simp add: Let_def)

text \<open>
  C3 at a failing input: a fresh server receives 21 invocations for session \<open>s1\<close> while the
  LLM service raises. Each invocation appends its user turn and leaves before the truncation
  to 20 turns, so the stored transcript has 21 turns. (After an invocation in which the LLM
  replied, the transcript has at most 20 turns: \<open>transcript_bounded_after_reply\<close>.)
\<close>

theorem transcript_exceeds_cap_after_failures:
  "map_option length
     (conversation_history
        (invocations fresh (replicate 21 (''s1'', ''hello'', \<lambda>_. Inl (Raised ''Connection error.''))))
        ''s1'') = Some 21"
proof -
  have "(21::nat) = Suc 20" by simp
  then show ?thesis by (simp only: failing_invocations) (simp add: fresh_def)
qed

section \<open>Properties of the audio transcoder\<close>

lemma replace_Cons:
  "old \<noteq> [] \<Longrightarrow>
   replace old new (c # cs) =
     (if take (length old) (c # cs) = old then new @ replace old new (drop (length old) (c # cs))
      else c # replace old new cs)"
  by (subst replace.simps) simp

lemma replace_mp3_fixed:
  "replace ''.mp3'' ''.wav'' s = s \<Longrightarrow> s \<noteq> a @ ''.mp3'' @ b"
proof (induction s arbitrary: a)
  case Nil
  then show ?case by simp
next
  case (Cons c cs)
  have ne: "''.mp3'' \<noteq> []" by simp
  note unfold = replace_Cons [OF ne, of "''.wav''" c cs]
  show ?case
  proof (cases "take (length ''.mp3'') (c # cs) = ''.mp3''")
    case True
    from unfold have "replace ''.mp3'' ''.wav'' (c # cs) =
        ''.wav'' @ replace ''.mp3'' ''.wav'' (drop (length ''.mp3'') (c # cs))"
      by (simp only: True simp_thms if_True)
    with Cons.prems
    have "''.wav'' @ replace ''.mp3'' ''.wav'' (drop (length ''.mp3'') (c # cs)) = c # cs"
      by (simp only:)
    then have "take (length ''.mp3'') (''.wav'' @ replace ''.mp3'' ''.wav'' (drop (length ''.mp3'') (c # cs)))
               = take (length ''.mp3'') (c # cs)"
      by (rule arg_cong)
    with True have "take (length ''.mp3'') (''.wav'' @ replace ''.mp3'' ''.wav'' (drop (length ''.mp3'') (c # cs))) = ''.mp3''"
      by (simp only:)
    then show ?thesis by simp
  next
    case False
    from unfold False have "replace ''.mp3'' ''.wav'' (c # cs) = c # replace ''.mp3'' ''.wav'' cs"
      by (simp only: simp_thms if_False)
    with Cons.prems have "c # replace ''.mp3'' ''.wav'' cs = c # cs"
      by (simp only:)
    then have fx: "replace ''.mp3'' ''.wav'' cs = cs" by simp
    show ?thesis
    proof (cases a)
      case Nil
      with False show ?thesis by auto
    next
      case (Cons x a')
      with Cons.IH [OF fx, of a'] show ?thesis by auto
    qed
  qed
qed

lemma wav_path_differs: "replace ''.mp3'' ''.wav'' (tmp @ ''.mp3'') \<noteq> tmp @ ''.mp3''"
  using replace_mp3_fixed [of "tmp @ ''.mp3''" tmp "[]"] by auto

text \<open>
  C7. For every input byte string, if the invocation of the conversion tool raises (a non-zero
  exit status or a tool that cannot be started), \<open>convert_to_esp32_wav\<close> returns the input
  bytes unchanged; it neither raises nor returns other bytes.
\<close>

theorem transcoder_fallback:
  "tool mp3_bytes = RunRaised out \<Longrightarrow>
   snd (convert_to_esp32_wav tmp tool w mp3_bytes) = Inr mp3_bytes"
  by (cases out) (simp_all add: convert_to_esp32_wav_def Let_def)

theorem transcoder_fallback_witness:
  "snd (convert_to_esp32_wav ''/tmp/tmpk3x9'' (\<lambda>_. RunRaised None) fresh [0x49, 0x44, 0x33])
     = Inr [0x49, 0x44, 0x33]"
  using transcoder_fallback [of "\<lambda>_. RunRaised None" "[0x49, 0x44, 0x33]" None "''/tmp/tmpk3x9''" fresh]
  by simp

lemma convert_history:
  "conversation_history (fst (convert_to_esp32_wav tmp tool w b)) = conversation_history w"
  by (simp add: convert_to_esp32_wav_def Let_def split: run_result.splits option.splits sum.splits prod.splits)

lemma convert_success_cleans:
  assumes "tool b = Exit0 (Some wav)"
  shows "convert_to_esp32_wav tmp tool w b =
           (w\<lparr>files := (files w)(tmp @ ''.mp3'' := None, replace ''.mp3'' ''.wav'' (tmp @ ''.mp3'') := None)\<rparr>,
            Inr wav)"
  using assms wav_path_differs [of tmp]
  by (simp add: convert_to_esp32_wav_def Let_def)

lemma convert_failure_leaves_output:
  assumes "tool b = RunRaised (Some part)"
  shows "files (fst (convert_to_esp32_wav tmp tool w b)) (replace ''.mp3'' ''.wav'' (tmp @ ''.mp3'')) = Some part"
  using assms wav_path_differs [of tmp]
  by (simp add: convert_to_esp32_wav_def Let_def)

text \<open>In this model the transcoder always returns: its \<open>except\<close> branch finds the input
  file, which the tool does not remove.\<close>

lemma convert_returns: "\<exists>b. snd (convert_to_esp32_wav tmp tool w mp3) = Inr b"
proof (cases "tool mp3")
  case (Exit0 out)
  then show ?thesis using wav_path_differs [of tmp]
    by (cases out) (auto simp add: convert_to_esp32_wav_def Let_def split: option.splits)
next
  case (RunRaised out)
  then show ?thesis by (simp add: convert_to_esp32_wav_def Let_def split: option.splits)
qed

text \<open>
  C8 at a failing input: the tool writes two bytes to its output path and then exits with a
  non-zero status. The \<open>except\<close> branch removes the input file only, so the output file, which
  did not exist before the call, is on disk after it. (When the tool succeeds both files are
  removed: \<open>convert_success_cleans\<close>.)
\<close>

theorem output_file_left_after_failure:
  "files (fst (convert_to_esp32_wav ''/tmp/tmpk3x9'' (\<lambda>_. RunRaised (Some [0x52, 0x49])) fresh
                 [0x49, 0x44, 0x33])) ''/tmp/tmpk3x9.wav'' = Some [0x52, 0x49]
   \<and> files fresh ''/tmp/tmpk3x9.wav'' = None"
  by (simp add: convert_to_esp32_wav_def Let_def fresh_def replace.simps)

section \<open>Properties of the endpoints\<close>

lemma dict_get_Nil: "dict_get [] k d = d"
  by (simp add: dict_get_def)

lemma talk_no_text:
  assumes "dict_get (request_data (json_loads env) req) ''text'' [] = []"
  shows "talk env w req =
           (w, failure (if request_data (json_loads env) req = [] then ''Could not parse request data''
                        else ''No text provided''))"
  using assms by (simp add: talk_def Let_def)

lemma talk_pipeline:
  assumes "dict_get (request_data (json_loads env) req) ''text'' [] = t" "t \<noteq> []"
    and "dict_get (request_data (json_loads env) req) ''session_id'' ''default'' = sid"
  shows "talk env w req =
           (case get_llm_response (llm env) w sid t of
              (w1, Inl e) \<Rightarrow> (w1, failure (str_exn e))
            | (w1, Inr raw_llm_response) \<Rightarrow>
                (case parse_response raw_llm_response of
                   Inl e \<Rightarrow> (w1, failure (str_exn e))
                 | Inr (spoken_text, motion, face) \<Rightarrow>
                     (case text_to_speech env spoken_text of
                        Inl e \<Rightarrow> (w1, failure (str_exn e))
                      | Inr audio_mp3 \<Rightarrow>
                          (case convert_to_esp32_wav (tmp_name env) (ffmpeg env) w1 audio_mp3 of
                             (w2, Inl e) \<Rightarrow> (w2, failure (str_exn e))
                           | (w2, Inr audio_wav) \<Rightarrow>
                               (w2,
                                ([(''success'', JBool True),
                                  (''audio_base64'', JStr (b64encode audio_wav)),
                                  (''transcript'', JStr t),
                                  (''response'', JStr spoken_text),
                                  (''motion'', JStr motion),
                                  (''face'', JStr face)], 200))))))"
proof -
  from assms(1,2) have "request_data (json_loads env) req \<noteq> []"
    by (auto simp: dict_get_Nil)
  with assms show ?thesis by (simp add: talk_def Let_def)
qed

lemma convert_history_pair:
  "convert_to_esp32_wav tmp tool w b = (w', r) \<Longrightarrow> conversation_history w' = conversation_history w"
  using convert_history [of tmp tool w b] by simp

lemma talk_history:
  assumes "dict_get (request_data (json_loads env) req) ''text'' [] = t" "t \<noteq> []"
    and "dict_get (request_data (json_loads env) req) ''session_id'' ''default'' = sid"
  shows "conversation_history (fst (talk env w req)) =
           conversation_history (fst (get_llm_response (llm env) w sid t))"
  by (auto simp: talk_pipeline [OF assms] split: prod.splits sum.splits
      dest: convert_history_pair)

text \<open>
  C4, as the code has it. If the LLM call raises during a \<open>talk\<close> invocation, the caller
  receives \<open>{success: false, error: str(e)}\<close> with status 200, where \<open>e\<close> is the exception
  raised; the error string is the message of that exception, and is non-empty exactly when that
  message is. The session then holds its former turns followed by the user turn of this call:
  no assistant turn was appended, and the user turn was not rolled back.
\<close>

theorem talk_llm_failure:
  assumes "dict_get (request_data (json_loads env) req) ''text'' [] = t" "t \<noteq> []"
    and "dict_get (request_data (json_loads env) req) ''session_id'' ''default'' = sid"
    and "snd (get_llm_response (llm env) w sid t) = Inl e"
  shows "snd (talk env w req) = ([(''success'', JBool False), (''error'', JStr (str_exn e))], 200)
       \<and> conversation_history (fst (talk env w req)) =
           (conversation_history w)(sid \<mapsto>
              (case conversation_history w sid of None \<Rightarrow> [] | Some h \<Rightarrow> h) @
              [\<lparr>role = ''user'', content = t\<rparr>])"
proof
  obtain w1 where "get_llm_response (llm env) w sid t = (w1, Inl e)"
    using assms(4) by (cases "get_llm_response (llm env) w sid t") auto
  then show "snd (talk env w req) = ([(''success'', JBool False), (''error'', JStr (str_exn e))], 200)"
    by (simp add: talk_pipeline [OF assms(1-3)] failure_def)
  show "conversation_history (fst (talk env w req)) =
           (conversation_history w)(sid \<mapsto>
              (case conversation_history w sid of None \<Rightarrow> [] | Some h \<Rightarrow> h) @
              [\<lparr>role = ''user'', content = t\<rparr>])"
    by (simp only: talk_history [OF assms(1-3)] get_llm_response_raises [OF assms(4)])
qed

theorem talk_llm_failure_witness:
  "snd (talk (stub_env (Inl (Raised ''Connection error.''))) fresh joke_request) =
     ([(''success'', JBool False), (''error'', JStr ''Connection error.'')], 200)
   \<and> conversation_history (fst (talk (stub_env (Inl (Raised ''Connection error.''))) fresh joke_request)) ''s1'' =
       Some [\<lparr>role = ''user'', content = ''Tell me a joke''\<rparr>]"
proof -
  let ?env = "stub_env (Inl (Raised ''Connection error.''))"
  have d: "request_data (json_loads ?env) joke_request =
             [(''text'', ''Tell me a joke''), (''session_id'', ''s1'')]"
    by (simp add: request_data_def joke_request_def)
  have t: "dict_get (request_data (json_loads ?env) joke_request) ''text'' [] = ''Tell me a joke''"
    by (simp add: d dict_get_def)
  have n: "''Tell me a joke'' \<noteq> []" by simp
  have s: "dict_get (request_data (json_loads ?env) joke_request) ''session_id'' ''default'' = ''s1''"
    by (simp add: d dict_get_def)
  have r: "snd (get_llm_response (llm ?env) fresh ''s1'' ''Tell me a joke'') = Inl (Raised ''Connection error.'')"
    by (simp add: get_llm_response_def stub_env_def Let_def)
  show ?thesis using talk_llm_failure [OF t n s r] by (simp add: str_exn_def fresh_def)
qed

text \<open>
  C4 as stated fails in one detail: when the LLM client raises an exception whose message is
  empty, the error string of the response is empty.
\<close>

theorem llm_failure_error_counterexample:
  "snd (talk (stub_env (Inl (Raised []))) fresh joke_request) =
     ([(''success'', JBool False), (''error'', JStr [])], 200)"
  by (simp add: talk_def request_data_def joke_request_def dict_get_def get_llm_response_def
      stub_env_def Let_def failure_def str_exn_def)

text \<open>A response with \<open>success: true\<close> comes from an invocation in which every stage
  returned.\<close>

lemma talk_success_stages:
  assumes "map_of (fst (snd (talk env w req))) ''success'' = Some (JBool True)"
  shows "\<exists>r s m f mp3 wav.
           dict_get (request_data (json_loads env) req) ''text'' [] \<noteq> []
         \<and> snd (get_llm_response (llm env) w
                 (dict_get (request_data (json_loads env) req) ''session_id'' ''default'')
                 (dict_get (request_data (json_loads env) req) ''text'' [])) = Inr r
         \<and> parse_response r = Inr (s, m, f)
         \<and> text_to_speech env s = Inr mp3
         \<and> snd (convert_to_esp32_wav (tmp_name env) (ffmpeg env)
                 (fst (get_llm_response (llm env) w
                    (dict_get (request_data (json_loads env) req) ''session_id'' ''default'')
                    (dict_get (request_data (json_loads env) req) ''text'' []))) mp3) = Inr wav"
proof (cases "dict_get (request_data (json_loads env) req) ''text'' [] = []")
  case True
  with assms show ?thesis by (simp add: talk_no_text failure_def)
next
  case False
  note p = talk_pipeline [OF refl False refl, of w]
  from assms show ?thesis
    unfolding p using False
    by (auto simp: failure_def split: prod.splits sum.splits)
qed

text \<open>
  C5. A \<open>talk\<close> invocation with input text \<open>t\<close> in which the LLM replies \<open>r\<close>, the parser
  gives \<open>(s, m, f)\<close> for \<open>r\<close>, the speech service returns audio for \<open>s\<close> and the transcoder
  returns the bytes \<open>wav\<close> for that audio answers with status 200 and exactly the payload
  \<open>{success: true, audio_base64: base64(wav), transcript: t, response: s, motion: m, face: f}\<close>.
  The concrete case is the end-to-end scenario of the specification.
\<close>

theorem talk_success_payload:
  assumes "dict_get (request_data (json_loads env) req) ''text'' [] = t" "t \<noteq> []"
    and "dict_get (request_data (json_loads env) req) ''session_id'' ''default'' = sid"
    and "snd (get_llm_response (llm env) w sid t) = Inr r"
    and "parse_response r = Inr (s, m, f)"
    and "text_to_speech env s = Inr mp3"
    and "snd (convert_to_esp32_wav (tmp_name env) (ffmpeg env)
               (fst (get_llm_response (llm env) w sid t)) mp3) = Inr wav"
  shows "snd (talk env w req) =
           ([(''success'', JBool True),
             (''audio_base64'', JStr (b64encode wav)),
             (''transcript'', JStr t),
             (''response'', JStr s),
             (''motion'', JStr m),
             (''face'', JStr f)], 200)"
proof -
  obtain w1 where g: "get_llm_response (llm env) w sid t = (w1, Inr r)"
    using assms(4) by (cases "get_llm_response (llm env) w sid t") auto
  with assms(7) obtain w2 where c: "convert_to_esp32_wav (tmp_name env) (ffmpeg env) w1 mp3 = (w2, Inr wav)"
    by (cases "convert_to_esp32_wav (tmp_name env) (ffmpeg env) w1 mp3") auto
  show ?thesis
    by (simp add: talk_pipeline [OF assms(1-3)] g assms(5,6) c)
qed

theorem talk_success_payload_witness:
  "snd (talk (stub_env (Inr joke_reply)) fresh joke_request) =
     ([(''success'', JBool True),
       (''audio_base64'', JStr ''UENN''),
       (''transcript'', JStr ''Tell me a joke''),
       (''response'', JStr ''Why did the robot cross the road? To get to the other silicon!''),
       (''motion'', JStr ''dance''),
       (''face'', JStr ''happy'')], 200)"
proof -
  let ?env = "stub_env (Inr joke_reply)"
  have d: "request_data (json_loads ?env) joke_request =
             [(''text'', ''Tell me a joke''), (''session_id'', ''s1'')]"
    by (simp add: request_data_def joke_request_def)
  have t: "dict_get (request_data (json_loads ?env) joke_request) ''text'' [] = ''Tell me a joke''"
    by (simp add: d dict_get_def)
  have n: "''Tell me a joke'' \<noteq> []" by simp
  have s: "dict_get (request_data (json_loads ?env) joke_request) ''session_id'' ''default'' = ''s1''"
    by (simp add: d dict_get_def)
  have r: "snd (get_llm_response (llm ?env) fresh ''s1'' ''Tell me a joke'') = Inr joke_reply"
    by (simp add: get_llm_response_def stub_env_def Let_def)
  have p: "parse_response joke_reply =
             Inr (''Why did the robot cross the road? To get to the other silicon!'', ''dance'', ''happy'')"
    by code_simp
  have a: "text_to_speech ?env ''Why did the robot cross the road? To get to the other silicon!'' = Inr [0x49, 0x44, 0x33]"
    by (simp add: stub_env_def)
  have c: "snd (convert_to_esp32_wav (tmp_name ?env) (ffmpeg ?env)
               (fst (get_llm_response (llm ?env) fresh ''s1'' ''Tell me a joke'')) [0x49, 0x44, 0x33])
             = Inr [0x50, 0x43, 0x4D]"
    by (simp add: convert_success_cleans stub_env_def)
  have b: "b64encode [0x50, 0x43, 0x4D] = ''UENN''" by (simp add: b64_char_def)
  show ?thesis using talk_success_payload [OF t n s r p a c] by (simp only: b)
qed

lemma dict_get_absent: "map_of d k = None \<Longrightarrow> dict_get d k dflt = dflt"
  by (simp add: dict_get_def)

text \<open>
  C9. A \<open>talk\<close> request whose data have no \<open>session_id\<close> field leaves the history of every
  session other than \<open>default\<close> as it was, and when it carries a text the stored histories
  after it are those that \<open>get_llm_response\<close> leaves when called with the session id
  \<open>default\<close>. A \<open>clear_session\<close> request whose decoded body has no \<open>session_id\<close> field
  removes the session \<open>default\<close> and answers with status 200.
\<close>

theorem missing_session_id_is_default:
  "(map_of (request_data (json_loads env) req) ''session_id'' = None \<longrightarrow>
      (\<forall>k. k \<noteq> ''default'' \<longrightarrow>
            conversation_history (fst (talk env w req)) k = conversation_history w k)
      \<and> (dict_get (request_data (json_loads env) req) ''text'' [] \<noteq> [] \<longrightarrow>
            conversation_history (fst (talk env w req)) =
              conversation_history
                (fst (get_llm_response (llm env) w ''default''
                        (dict_get (request_data (json_loads env) req) ''text'' [])))))
   \<and> (json_loads env (get_data creq) = Inr d \<longrightarrow> map_of d ''session_id'' = None \<longrightarrow>
        conversation_history (fst (clear_session env w creq)) =
          (conversation_history w)(''default'' := None)
        \<and> snd (clear_session env w creq) =
            Inr ([(''message'', JStr (''Session '' @ [CHR 0x27] @ ''default'' @ [CHR 0x27] @ '' cleared.''))],
                 200))"
proof (intro conjI impI allI)
  fix k :: string
  assume a: "map_of (request_data (json_loads env) req) ''session_id'' = None" and k: "k \<noteq> ''default''"
  show "conversation_history (fst (talk env w req)) k = conversation_history w k"
  proof (cases "dict_get (request_data (json_loads env) req) ''text'' [] = []")
    case True
    then show ?thesis by (simp add: talk_no_text)
  next
    case False
    from talk_history [OF refl False dict_get_absent [OF a]]
    show ?thesis using k by (simp add: get_llm_response_other)
  qed
next
  assume a: "map_of (request_data (json_loads env) req) ''session_id'' = None"
    and t: "dict_get (request_data (json_loads env) req) ''text'' [] \<noteq> []"
  show "conversation_history (fst (talk env w req)) =
          conversation_history
            (fst (get_llm_response (llm env) w ''default''
                    (dict_get (request_data (json_loads env) req) ''text'' [])))"
    by (rule talk_history [OF refl t dict_get_absent [OF a]])
next
  assume l: "json_loads env (get_data creq) = Inr d" and a: "map_of d ''session_id'' = None"
  show "conversation_history (fst (clear_session env w creq)) =
          (conversation_history w)(''default'' := None)"
    using l by (auto simp: clear_session_def dict_get_absent [OF a] Let_def)
next
  assume l: "json_loads env (get_data creq) = Inr d" and a: "map_of d ''session_id'' = None"
  show "snd (clear_session env w creq) =
          Inr ([(''message'', JStr (''Session '' @ [CHR 0x27] @ ''default'' @ [CHR 0x27] @ '' cleared.''))],
               200)"
    using l by (simp add: clear_session_def dict_get_absent [OF a] Let_def)
qed

theorem missing_session_id_is_default_witness:
  "conversation_history (fst (talk (stub_env (Inr ''Hi!'')) fresh hello_request)) ''default'' =
     Some [\<lparr>role = ''user'', content = ''Hello''\<rparr>, \<lparr>role = ''assistant'', content = ''Hi!''\<rparr>]
   \<and> conversation_history (fst (talk (stub_env (Inr ''Hi!'')) fresh hello_request)) ''s1'' = None
   \<and> snd (clear_session (stub_env (Inr ''Hi!'')) fresh empty_object_request) =
       Inr ([(''message'', JStr (''Session '' @ [CHR 0x27] @ ''default'' @ [CHR 0x27] @ '' cleared.''))],
            200)"
proof -
  let ?env = "stub_env (Inr ''Hi!'')"
  have d: "request_data (json_loads ?env) hello_request = [(''text'', ''Hello'')]"
    by (simp add: request_data_def hello_request_def)
  have a: "map_of (request_data (json_loads ?env) hello_request) ''session_id'' = None"
    by (simp add: d)
  have t: "dict_get (request_data (json_loads ?env) hello_request) ''text'' [] = ''Hello''"
    by (simp add: d dict_get_def)
  have l: "json_loads ?env (get_data empty_object_request) = Inr []"
    by (simp add: stub_env_def empty_object_request_def)
  have m: "map_of ([] :: dict) ''session_id'' = None" by simp
  have g: "conversation_history (fst (get_llm_response (llm ?env) fresh ''default'' ''Hello'')) ''default'' =
      Some [\<lparr>role = ''user'', content = ''Hello''\<rparr>, \<lparr>role = ''assistant'', content = ''Hi!''\<rparr>]"
    by (simp add: get_llm_response_def Let_def stub_env_def fresh_def)
  have s: "''s1'' \<noteq> ''default''" by simp
  have f: "conversation_history fresh ''s1'' = None" by (simp add: fresh_def)
  have tn: "dict_get (request_data (json_loads ?env) hello_request) ''text'' [] \<noteq> []"
    by (simp add: t)
  note inst = missing_session_id_is_default
         [where env = ?env and req = hello_request and w = fresh and creq = empty_object_request
            and d = "[]"]
  note talk_part = inst [THEN conjunct1, THEN mp, OF a]
  have p1: "conversation_history (fst (talk ?env fresh hello_request)) ''s1'' = conversation_history fresh ''s1''"
    by (rule talk_part [THEN conjunct1, THEN spec, THEN mp, OF s])
  have "conversation_history (fst (talk ?env fresh hello_request)) =
         conversation_history (fst (get_llm_response (llm ?env) fresh ''default''
            (dict_get (request_data (json_loads ?env) hello_request) ''text'' [])))"
    by (rule talk_part [THEN conjunct2, THEN mp, OF tn])
  then have p2: "conversation_history (fst (talk ?env fresh hello_request)) =
         conversation_history (fst (get_llm_response (llm ?env) fresh ''default'' ''Hello''))"
    by (simp only: t)
  have p3: "snd (clear_session ?env fresh empty_object_request) =
       Inr ([(''message'', JStr (''Session '' @ [CHR 0x27] @ ''default'' @ [CHR 0x27] @ '' cleared.''))],
            200)"
    by (rule inst [THEN conjunct2, THEN mp, THEN mp, OF l m, THEN conjunct2])
  have c1: "conversation_history (fst (talk ?env fresh hello_request)) ''default'' =
     Some [\<lparr>role = ''user'', content = ''Hello''\<rparr>, \<lparr>role = ''assistant'', content = ''Hi!''\<rparr>]"
    by (simp only: p2 g)
  have c2: "conversation_history (fst (talk ?env fresh hello_request)) ''s1'' = None"
    by (simp only: p1 f)
  from c1 c2 p3 show ?thesis by (intro conjI)
qed

text \<open>
  C10, as the code has it. For every \<open>talk\<close> request whose text field is absent or the empty
  string, the response is a failure with status 200 and nothing is changed: no user turn is
  recorded and no session is created. The error is \<open>No text provided\<close> when the request data
  have at least one field, and \<open>Could not parse request data\<close> when they are empty.
\<close>

theorem talk_without_text:
  "dict_get (request_data (json_loads env) req) ''text'' [] = [] \<Longrightarrow>
   talk env w req =
     (w, ([(''success'', JBool False),
           (''error'', JStr (if request_data (json_loads env) req = []
                             then ''Could not parse request data'' else ''No text provided''))], 200))"
  by (simp add: talk_def Let_def failure_def)

theorem talk_without_text_witness:
  "talk (stub_env (Inr ''Hi!'')) fresh no_text_request =
     (fresh, ([(''success'', JBool False), (''error'', JStr ''No text provided'')], 200))"
proof -
  let ?env = "stub_env (Inr ''Hi!'')"
  have d: "request_data (json_loads ?env) no_text_request = [(''session_id'', ''s1'')]"
    by (simp add: request_data_def no_text_request_def)
  have t: "dict_get (request_data (json_loads ?env) no_text_request) ''text'' [] = []"
    by (simp add: d dict_get_def)
  show ?thesis using talk_without_text [OF t, of fresh] by (simp add: d)
qed

text \<open>
  C10 as stated fails for a request whose body is the empty JSON object: the text field is
  absent, the dictionary is empty, so \<open>if not data\<close> holds and the error is
  \<open>Could not parse request data\<close>.
\<close>

theorem empty_object_body_counterexample:
  "dict_get (request_data (json_loads (stub_env (Inr ''Hi!''))) empty_object_request) ''text'' [] = []
   \<and> snd (talk (stub_env (Inr ''Hi!'')) fresh empty_object_request) =
       ([(''success'', JBool False), (''error'', JStr ''Could not parse request data'')], 200)
   \<and> snd (talk (stub_env (Inr ''Hi!'')) fresh empty_object_request) \<noteq>
       ([(''success'', JBool False), (''error'', JStr ''No text provided'')], 200)"
  by (simp add: talk_def request_data_def empty_object_request_def stub_env_def dict_get_def
      Let_def failure_def)

end
